theory Spec2Isabelle
  imports Complex_Main
begin

section \<open>Python values\<close>

text \<open>
  The service is one Python module, \<^verbatim>\<open>model_api.py\<close>. Python \<^verbatim>\<open>str\<close> values are
  represented by their UTF-8 encoding, so a character outside ASCII is several
  \<^typ>\<open>char\<close>s. Console output (\<^verbatim>\<open>print\<close>) is not modelled.

  A \<^verbatim>\<open>float\<close> is the rational it denotes, or one of the three special values.
\<close>

datatype pyfloat = Finite rat | PosInf | NegInf | NaN

text \<open>
  The values that travel through the handlers: parsed request bodies, engine responses
  and response bodies. A \<^verbatim>\<open>dict\<close> keeps its insertion order; its keys are strings and
  are looked up from the front.
\<close>

datatype json =
    JNull
  | JBool bool
  | JInt int
  | JFloat pyfloat
  | JStr string
  | JList "json list"
  | JObj "(string \<times> json) list"

text \<open>
  An instance of a subclass of \<^verbatim>\<open>Exception\<close>, which is what the \<^verbatim>\<open>except Exception\<close>
  clauses of the module catch, seen the way the handlers see it: \<^verbatim>\<open>type(e).__name__\<close>
  and \<^verbatim>\<open>str(e)\<close>. The texts of the exceptions that Python itself raises are those of
  CPython 3.10.
\<close>

datatype py_exn = Exn (exn_name: string) (exn_str: string)

definition squote :: "string \<Rightarrow> string" where
  "squote s = CHR 0x27 # s @ [CHR 0x27]"

fun type_name :: "json \<Rightarrow> string" where
  "type_name JNull = ''NoneType''"
| "type_name (JBool b) = ''bool''"
| "type_name (JInt n) = ''int''"
| "type_name (JFloat f) = ''float''"
| "type_name (JStr s) = ''str''"
| "type_name (JList xs) = ''list''"
| "type_name (JObj d) = ''dict''"

text \<open>Python's truth value of an object, as \<^verbatim>\<open>if x:\<close> and \<^verbatim>\<open>x or y\<close> test it.\<close>

fun truthy :: "json \<Rightarrow> bool" where
  "truthy JNull = False"
| "truthy (JBool b) = b"
| "truthy (JInt n) = (n \<noteq> 0)"
| "truthy (JFloat f) = (f \<noteq> Finite 0)"
| "truthy (JStr s) = (s \<noteq> [])"
| "truthy (JList xs) = (xs \<noteq> [])"
| "truthy (JObj d) = (d \<noteq> [])"

section \<open>Configuration, process-wide state and the outside world\<close>

text \<open>
  The module constants \<^verbatim>\<open>MODEL_PATH\<close>, \<^verbatim>\<open>N_CTX\<close> and \<^verbatim>\<open>N_THREADS\<close>, resolved from the
  environment when the module is imported.
\<close>

record config =
  MODEL_PATH :: string
  N_CTX :: int
  N_THREADS :: int

text \<open>
  The two module globals \<^verbatim>\<open>_LLM\<close> and \<^verbatim>\<open>_MODEL_ERROR\<close>. The engine object is
  opaque: \<open>'e\<close> is whatever state it carries.
\<close>

record 'e state =
  LLM :: "'e option"
  MODEL_ERROR :: "string option"

definition initial_state :: "'e state" where
  "initial_state = \<lparr>LLM = None, MODEL_ERROR = None\<rparr>"

text \<open>
  What the module calls and does not define: \<^verbatim>\<open>Path(p).exists()\<close>, the constructor
  \<^verbatim>\<open>Llama(model_path, n_ctx, n_threads)\<close> and the method \<^verbatim>\<open>create_chat_completion\<close> of
  \<^verbatim>\<open>llama_cpp\<close> (either may raise; a call may change the engine), \<^verbatim>\<open>json.dumps\<close> with
  \<^verbatim>\<open>ensure_ascii=False\<close>, and the builtin \<^verbatim>\<open>int\<close> on a string.
\<close>

record 'e world =
  path_exists :: "string \<Rightarrow> bool"
  Llama :: "string \<Rightarrow> int \<Rightarrow> int \<Rightarrow> py_exn + 'e"
  create_chat_completion :: "'e \<Rightarrow> json \<Rightarrow> pyfloat \<Rightarrow> int \<Rightarrow> (py_exn + json) \<times> 'e"
  json_dumps :: "json \<Rightarrow> string"
  int_of_str :: "string \<Rightarrow> py_exn + int"

text \<open>The calls a function makes to the outside world, in order.\<close>

datatype event =
    Path_exists string
  | Llama_init string int int
  | Get_json
  | Create_chat_completion json pyfloat int

fun is_Llama_init :: "event \<Rightarrow> bool" where
  "is_Llama_init (Llama_init p c t) = True"
| "is_Llama_init ev = False"

fun is_Create_chat_completion :: "event \<Rightarrow> bool" where
  "is_Create_chat_completion (Create_chat_completion m t n) = True"
| "is_Create_chat_completion ev = False"

section \<open>The loader\<close>

definition cross_mark :: string where
  "cross_mark = [CHR 0xE2, CHR 0x9D, CHR 0x8C]"

definition not_found_msg :: "string \<Rightarrow> string" where
  "not_found_msg p = cross_mark @ '' ERROR: Modelo NO encontrado en: '' @ p"

definition load_failed_msg :: "py_exn \<Rightarrow> string" where
  "load_failed_msg e = cross_mark @ '' ERROR cargando modelo: '' @ exn_str e"

text \<open>
  \<^verbatim>\<open>load_model()\<close>: the value returned, the outside calls made, and the globals afterwards.
\<close>

definition load_model :: "config \<Rightarrow> 'e world \<Rightarrow> 'e state \<Rightarrow> bool \<times> event list \<times> 'e state" where
  "load_model cfg w s =
     (if \<not> path_exists w (MODEL_PATH cfg) then
        (False, [Path_exists (MODEL_PATH cfg)],
         s\<lparr>MODEL_ERROR := Some (not_found_msg (MODEL_PATH cfg))\<rparr>)
      else
        (case Llama w (MODEL_PATH cfg) (N_CTX cfg) (N_THREADS cfg) of
           Inr llm \<Rightarrow>
             (True,
              [Path_exists (MODEL_PATH cfg), Llama_init (MODEL_PATH cfg) (N_CTX cfg) (N_THREADS cfg)],
              s\<lparr>LLM := Some llm\<rparr>)
         | Inl e \<Rightarrow>
             (False,
              [Path_exists (MODEL_PATH cfg), Llama_init (MODEL_PATH cfg) (N_CTX cfg) (N_THREADS cfg)],
              s\<lparr>MODEL_ERROR := Some (load_failed_msg e)\<rparr>)))"

text \<open>The state the server runs in once \<^verbatim>\<open>load_model()\<close> has run at startup.\<close>

definition startup :: "config \<Rightarrow> 'e world \<Rightarrow> 'e state" where
  "startup cfg w = snd (snd (load_model cfg w initial_state))"

section \<open>Operations of Python on the values\<close>

text \<open>Sequencing inside a \<^verbatim>\<open>try\<close> block: the first exception ends it.\<close>

definition and_then :: "py_exn + 'a \<Rightarrow> ('a \<Rightarrow> py_exn + 'b) \<Rightarrow> py_exn + 'b" where
  "and_then r f = (case r of Inl e \<Rightarrow> Inl e | Inr x \<Rightarrow> f x)"

definition dict_get :: "(string \<times> json) list \<Rightarrow> string \<Rightarrow> json \<Rightarrow> json" where
  "dict_get d k dflt = (case map_of d k of None \<Rightarrow> dflt | Some v \<Rightarrow> v)"

definition not_subscriptable :: "json \<Rightarrow> py_exn" where
  "not_subscriptable x = Exn ''TypeError'' (squote (type_name x) @ '' object is not subscriptable'')"

text \<open>\<^verbatim>\<open>x.get(k, dflt)\<close>: only a \<^verbatim>\<open>dict\<close> has the method.\<close>

fun py_get :: "json \<Rightarrow> string \<Rightarrow> json \<Rightarrow> py_exn + json" where
  "py_get (JObj d) k dflt = Inr (dict_get d k dflt)"
| "py_get x k dflt =
     Inl (Exn ''AttributeError'' (squote (type_name x) @ '' object has no attribute '' @ squote ''get''))"

text \<open>\<^verbatim>\<open>x[k]\<close> for a string literal \<open>k\<close>.\<close>

fun getitem_str :: "json \<Rightarrow> string \<Rightarrow> py_exn + json" where
  "getitem_str (JObj d) k =
     (case map_of d k of None \<Rightarrow> Inl (Exn ''KeyError'' (squote k)) | Some v \<Rightarrow> Inr v)"
| "getitem_str (JList xs) k =
     Inl (Exn ''TypeError'' ''list indices must be integers or slices, not str'')"
| "getitem_str (JStr s) k = Inl (Exn ''TypeError'' ''string indices must be integers'')"
| "getitem_str x k = Inl (not_subscriptable x)"

definition is_continuation :: "char \<Rightarrow> bool" where
  "is_continuation c = (128 \<le> (of_char c :: nat) \<and> (of_char c :: nat) < 192)"

text \<open>\<^verbatim>\<open>x[0]\<close>. The first character of a string is its first UTF-8 sequence.\<close>

fun getitem_0 :: "json \<Rightarrow> py_exn + json" where
  "getitem_0 (JList xs) =
     (case xs of [] \<Rightarrow> Inl (Exn ''IndexError'' ''list index out of range'') | x # _ \<Rightarrow> Inr x)"
| "getitem_0 (JStr s) =
     (case s of [] \<Rightarrow> Inl (Exn ''IndexError'' ''string index out of range'')
      | c # cs \<Rightarrow> Inr (JStr (c # takeWhile is_continuation cs)))"
| "getitem_0 (JObj d) = Inl (Exn ''KeyError'' ''0'')"
| "getitem_0 x = Inl (not_subscriptable x)"

text \<open>
  \<^verbatim>\<open>x[:50]\<close>, whose value is only printed: what matters is whether it raises.
\<close>

fun slice_50 :: "json \<Rightarrow> py_exn + unit" where
  "slice_50 (JStr s) = Inr ()"
| "slice_50 (JList xs) = Inr ()"
| "slice_50 (JObj d) = Inl (Exn ''TypeError'' (''unhashable type: '' @ squote ''slice''))"
| "slice_50 x = Inl (not_subscriptable x)"

text \<open>\<^verbatim>\<open>len(x)\<close>, whose value is only printed.\<close>

fun len_check :: "json \<Rightarrow> py_exn + unit" where
  "len_check (JStr s) = Inr ()"
| "len_check (JList xs) = Inr ()"
| "len_check (JObj d) = Inr ()"
| "len_check x =
     Inl (Exn ''TypeError'' (''object of type '' @ squote (type_name x) @ '' has no len()''))"

definition truncate :: "rat \<Rightarrow> int" where
  "truncate q = (if q < 0 then - \<lfloor>- q\<rfloor> else \<lfloor>q\<rfloor>)"

text \<open>The builtin \<^verbatim>\<open>int(x)\<close>.\<close>

fun py_int :: "'e world \<Rightarrow> json \<Rightarrow> py_exn + int" where
  "py_int w (JInt n) = Inr n"
| "py_int w (JBool b) = Inr (if b then 1 else 0)"
| "py_int w (JFloat (Finite q)) = Inr (truncate q)"
| "py_int w (JFloat NaN) = Inl (Exn ''ValueError'' ''cannot convert float NaN to integer'')"
| "py_int w (JFloat f) = Inl (Exn ''OverflowError'' ''cannot convert float infinity to integer'')"
| "py_int w (JStr s) = int_of_str w s"
| "py_int w x =
     Inl (Exn ''TypeError''
       (''int() argument must be a string, a bytes-like object or a real number, not ''
        @ squote (type_name x)))"

section \<open>The handlers\<close>

text \<open>What a view returns: \<^verbatim>\<open>jsonify(...)\<close> with a status, 200 when none is given.\<close>

record response =
  status :: nat
  body :: json

definition body_field :: "response \<Rightarrow> string \<Rightarrow> json option" where
  "body_field r k = (case body r of JObj d \<Rightarrow> map_of d k | _ \<Rightarrow> None)"

text \<open>The value of \<^verbatim>\<open>_MODEL_ERROR\<close> as the handlers test it and put it in a body.\<close>

definition model_error_value :: "'e state \<Rightarrow> json" where
  "model_error_value s = (case MODEL_ERROR s of None \<Rightarrow> JNull | Some m \<Rightarrow> JStr m)"

definition model_error_truthy :: "'e state \<Rightarrow> bool" where
  "model_error_truthy s = truthy (model_error_value s)"

text \<open>\<^verbatim>\<open>GET /\<close>. Reads the globals and the configuration.\<close>

definition root :: "config \<Rightarrow> 'e state \<Rightarrow> response" where
  "root cfg s =
     (if model_error_truthy s then
        \<lparr>status = 500,
         body = JObj [(''service'', JStr ''Agricultural LLM API''),
                      (''status'', JStr ''error''),
                      (''error'', model_error_value s),
                      (''model_loaded'', JBool False)]\<rparr>
      else
        \<lparr>status = 200,
         body = JObj [(''service'', JStr ''Agricultural LLM API''),
                      (''version'', JStr ''1.0.0''),
                      (''status'', JStr ''ready''),
                      (''model_loaded'', JBool (LLM s \<noteq> None)),
                      (''model_path'', JStr (MODEL_PATH cfg)),
                      (''endpoints'', JObj [(''health'', JStr ''/health''),
                                            (''chat'', JStr ''/chat (POST)'')])]\<rparr>)"

text \<open>\<^verbatim>\<open>GET /health\<close>; \<open>now\<close> is \<^verbatim>\<open>datetime.now().isoformat()\<close> at the time of the call.\<close>

definition health :: "config \<Rightarrow> string \<Rightarrow> 'e state \<Rightarrow> response" where
  "health cfg now s =
     (if model_error_truthy s then
        \<lparr>status = 500,
         body = JObj [(''status'', JStr ''error''),
                      (''error'', model_error_value s),
                      (''model_loaded'', JBool False)]\<rparr>
      else
        \<lparr>status = 200,
         body = JObj [(''status'', JStr ''ok''),
                      (''timestamp'', JStr now),
                      (''model_loaded'', JBool (LLM s \<noteq> None)),
                      (''model_path'', JStr (MODEL_PATH cfg))]\<rparr>)"

text \<open>
  Flask's \<^verbatim>\<open>request.get_json(force=True)\<close>. The request is given by what its body
  parses to: \<open>None\<close> when it is not a JSON document (an empty body is not one), and then
  Werkzeug's \<^verbatim>\<open>BadRequest\<close> is raised.
\<close>

definition get_json :: "json option \<Rightarrow> py_exn + json" where
  "get_json data =
     (case data of
        None \<Rightarrow> Inl (Exn ''BadRequest''
          ''400 Bad Request: The browser (or proxy) sent a request that this server could not understand.'')
      | Some j \<Rightarrow> Inr j)"

definition default_system :: string where
  "default_system = ''Eres un asistente agr'' @ [CHR 0xC3, CHR 0xB3] @ ''nomo.''"

text \<open>The literal \<^verbatim>\<open>0.2\<close>: the binary64 number nearest to one fifth.\<close>

definition temperature :: pyfloat where
  "temperature = Finite (3602879701896397 / 18014398509481984)"

text \<open>
  The first statements of the \<^verbatim>\<open>try\<close> block of \<^verbatim>\<open>chat\<close>, up to the \<^verbatim>\<open>print\<close> of the
  request: \<open>system_prompt\<close>, \<open>context\<close> and \<open>max_tokens\<close>.
\<close>

definition parse_request :: "'e world \<Rightarrow> json option \<Rightarrow> py_exn + (json \<times> json \<times> int)" where
  "parse_request w data =
     and_then (get_json data) (\<lambda>payload.
     and_then (py_get payload ''system'' (JStr default_system)) (\<lambda>system_prompt.
     and_then (py_get payload ''context'' (JObj [])) (\<lambda>context.
     and_then (py_get payload ''max_tokens'' (JInt 300)) (\<lambda>requested.
     and_then (py_int w requested) (\<lambda>max_tokens.
     and_then (py_get context ''mensaje'' (JStr [])) (\<lambda>mensaje.
     and_then (slice_50 mensaje) (\<lambda>_.
     Inr (system_prompt, context, max_tokens))))))))"

definition build_messages :: "'e world \<Rightarrow> json \<Rightarrow> json \<Rightarrow> json" where
  "build_messages w system_prompt context =
     JList [JObj [(''role'', JStr ''system''), (''content'', system_prompt)],
            JObj [(''role'', JStr ''user''), (''content'', JStr (json_dumps w context))]]"

text \<open>\<^verbatim>\<open>response["choices"][0]["message"]["content"]\<close>.\<close>

definition first_content :: "json \<Rightarrow> py_exn + json" where
  "first_content response =
     and_then (getitem_str response ''choices'') (\<lambda>choices.
     and_then (getitem_0 choices) (\<lambda>choice.
     and_then (getitem_str choice ''message'') (\<lambda>message.
     getitem_str message ''content'')))"

text \<open>
  \<^verbatim>\<open>content = ... or ""\<close>, then the \<^verbatim>\<open>len(content)\<close> of the \<^verbatim>\<open>print\<close> that follows.
\<close>

definition extract_content :: "json \<Rightarrow> py_exn + json" where
  "extract_content response =
     and_then (first_content response) (\<lambda>c.
       let content = (if truthy c then c else JStr [])
       in and_then (len_check content) (\<lambda>_. Inr content))"

text \<open>
  The \<^verbatim>\<open>try\<close> block of \<^verbatim>\<open>chat\<close>: the exception it raises or the response it returns,
  the outside calls made, and the engine afterwards.
\<close>

definition chat_try ::
    "'e world \<Rightarrow> json option \<Rightarrow> string \<Rightarrow> 'e \<Rightarrow> (py_exn + response) \<times> event list \<times> 'e" where
  "chat_try w data now llm =
     (case parse_request w data of
        Inl e \<Rightarrow> (Inl e, [Get_json], llm)
      | Inr (system_prompt, context, max_tokens) \<Rightarrow>
          (let messages = build_messages w system_prompt context;
               called = create_chat_completion w llm messages temperature max_tokens;
               calls = [Get_json, Create_chat_completion messages temperature max_tokens]
           in (case fst called of
                 Inl e \<Rightarrow> (Inl e, calls, snd called)
               | Inr response \<Rightarrow>
                   (case extract_content response of
                      Inl e \<Rightarrow> (Inl e, calls, snd called)
                    | Inr content \<Rightarrow>
                        (Inr \<lparr>status = 200,
                              body = JObj [(''content'', content), (''timestamp'', JStr now)]\<rparr>,
                         calls, snd called)))))"

definition processing_error :: "py_exn \<Rightarrow> response" where
  "processing_error e =
     \<lparr>status = 500,
      body = JObj [(''error'', JStr (''Error procesando request: '' @ exn_str e)),
                   (''type'', JStr (exn_name e))]\<rparr>"

text \<open>
  \<^verbatim>\<open>POST /chat\<close>: the response, the outside calls made, and the globals afterwards (the
  handler assigns to neither global; the engine object may have changed).
\<close>

definition chat ::
    "'e world \<Rightarrow> json option \<Rightarrow> string \<Rightarrow> 'e state \<Rightarrow> response \<times> event list \<times> 'e state" where
  "chat w data now s =
     (if model_error_truthy s then
        (\<lparr>status = 503,
          body = JObj [(''error'', JStr ''Model not available''),
                       (''details'', model_error_value s)]\<rparr>, [], s)
      else
        (case LLM s of
           None \<Rightarrow>
             (\<lparr>status = 503,
               body = JObj [(''error'', JStr ''Model not loaded''),
                            (''details'', JStr ''LLM instance is None'')]\<rparr>, [], s)
         | Some llm \<Rightarrow>
             (case chat_try w data now llm of
                (Inr r, calls, llm') \<Rightarrow> (r, calls, s\<lparr>LLM := Some llm'\<rparr>)
              | (Inl e, calls, llm') \<Rightarrow> (processing_error e, calls, s\<lparr>LLM := Some llm'\<rparr>))))"

section \<open>A stub engine\<close>

text \<open>
  A world for concrete runs. The engine is a script of outcomes: each call consumes the
  first one. The model file exists when \<open>present\<close> holds, and the constructor then
  returns an engine with the given script.
\<close>

definition stub_config :: config where
  "stub_config = \<lparr>MODEL_PATH = ''/srv/models/qwen.gguf'', N_CTX = 2048, N_THREADS = 1\<rparr>"

definition completion :: "(string \<times> json) list \<Rightarrow> json" where
  "completion message = JObj [(''choices'', JList [JObj [(''index'', JInt 0), (''message'', JObj message)]])]"

definition stub_world :: "bool \<Rightarrow> (py_exn + json) list \<Rightarrow> (py_exn + json) list world" where
  "stub_world present script =
     \<lparr>path_exists = (\<lambda>p. present),
      Llama = (\<lambda>p c t. Inr script),
      create_chat_completion = (\<lambda>q msgs t k.
         (case q of
            [] \<Rightarrow> (Inl (Exn ''RuntimeError'' ''script exhausted''), [])
          | r # rs \<Rightarrow> (r, rs))),
      json_dumps = (\<lambda>j. if j = JObj [] then ''{}'' else ''{...}''),
      int_of_str = (\<lambda>s. if s = ''50'' then Inr 50
                         else Inl (Exn ''ValueError'' ''invalid literal for int() with base 10''))\<rparr>"

definition riega :: json where
  "riega = completion [(''role'', JStr ''assistant''), (''content'', JStr ''Riega el cultivo cada 3 dias.'')]"

definition boom :: py_exn where
  "boom = Exn ''RuntimeError'' ''llama_decode returned -1''"

section \<open>Properties of the loader\<close>

lemma not_found_msg_nonempty: "not_found_msg p \<noteq> []"
  by (simp add: not_found_msg_def cross_mark_def)

lemma load_failed_msg_nonempty: "load_failed_msg e \<noteq> []"
  by (simp add: load_failed_msg_def cross_mark_def)

text \<open>
  The loader never records an empty text, so after startup the truth value of
  \<^verbatim>\<open>_MODEL_ERROR\<close> says whether an error is recorded.
\<close>

lemma startup_error_nonempty: "MODEL_ERROR (startup cfg w) \<noteq> Some []"
  by (simp add: startup_def load_model_def initial_state_def not_found_msg_nonempty
      load_failed_msg_nonempty split: sum.split)

lemma model_error_truthy_iff:
  "model_error_truthy s = (MODEL_ERROR s \<noteq> None \<and> MODEL_ERROR s \<noteq> Some [])"
  by (simp add: model_error_truthy_def model_error_value_def split: option.split)

lemma startup_error_truthy:
  "model_error_truthy (startup cfg w) = (MODEL_ERROR (startup cfg w) \<noteq> None)"
  using startup_error_nonempty [of cfg w] by (simp add: model_error_truthy_iff)

lemma startup_file_missing:
  "\<not> path_exists w (MODEL_PATH cfg) \<Longrightarrow>
   startup cfg w = \<lparr>LLM = None, MODEL_ERROR = Some (not_found_msg (MODEL_PATH cfg))\<rparr>"
  by (simp add: startup_def load_model_def initial_state_def)

lemma startup_loaded:
  "path_exists w (MODEL_PATH cfg) \<Longrightarrow> Llama w (MODEL_PATH cfg) (N_CTX cfg) (N_THREADS cfg) = Inr llm \<Longrightarrow>
   startup cfg w = \<lparr>LLM = Some llm, MODEL_ERROR = None\<rparr>"
  by (simp add: startup_def load_model_def initial_state_def)

lemma startup_stub_missing:
  "startup stub_config (stub_world False script) =
     \<lparr>LLM = None, MODEL_ERROR = Some (not_found_msg ''/srv/models/qwen.gguf'')\<rparr>"
  by (simp add: startup_file_missing stub_world_def stub_config_def)

lemma startup_stub_loaded:
  "startup stub_config (stub_world True script) = \<lparr>LLM = Some script, MODEL_ERROR = None\<rparr>"
  by (rule startup_loaded) (simp_all add: stub_world_def)

text \<open>
  C5. After \<^verbatim>\<open>load_model()\<close> has run on the freshly imported module, whichever of its
  three outcomes occurred (file missing, constructor raised, success), exactly one of the
  model handle and the load error is set: not both, not neither.
\<close>

theorem load_model_sets_exactly_one:
  "(LLM (startup cfg w) = None) \<noteq> (MODEL_ERROR (startup cfg w) = None)"
  by (simp add: startup_def load_model_def initial_state_def split: sum.split)

text \<open>
  C9. When the configured model path does not exist, \<^verbatim>\<open>load_model()\<close> returns
  \<^verbatim>\<open>False\<close>, records the not-found text, which ends with the attempted path and is not an
  initialisation-failure text, never calls the \<^verbatim>\<open>Llama\<close> constructor, and leaves the
  handle unset.
\<close>

theorem load_model_file_missing:
  assumes "\<not> path_exists w (MODEL_PATH cfg)"
  shows "load_model cfg w initial_state =
           (False, [Path_exists (MODEL_PATH cfg)],
            \<lparr>LLM = None, MODEL_ERROR = Some (not_found_msg (MODEL_PATH cfg))\<rparr>)
         \<and> (\<exists>pre. not_found_msg (MODEL_PATH cfg) = pre @ MODEL_PATH cfg)
         \<and> not_found_msg (MODEL_PATH cfg) \<noteq> load_failed_msg e
         \<and> list_all (\<lambda>ev. \<not> is_Llama_init ev) (fst (snd (load_model cfg w initial_state)))"
  using assms
  by (simp add: load_model_def initial_state_def not_found_msg_def load_failed_msg_def)

theorem load_model_file_missing_witness:
  "\<not> path_exists (stub_world False [Inr riega]) (MODEL_PATH stub_config)
   \<and> load_model stub_config (stub_world False [Inr riega]) initial_state =
       (False, [Path_exists ''/srv/models/qwen.gguf''],
        \<lparr>LLM = None, MODEL_ERROR = Some (not_found_msg ''/srv/models/qwen.gguf'')\<rparr>)"
proof -
  have missing: "\<not> path_exists (stub_world False [Inr riega]) (MODEL_PATH stub_config)"
    by (simp add: stub_world_def)
  from load_model_file_missing [OF missing] missing show ?thesis
    by (simp add: stub_config_def)
qed

section \<open>Properties of the chat handler's \<^verbatim>\<open>try\<close> block\<close>

lemma chat_try_parse_raises:
  "parse_request w data = Inl e \<Longrightarrow> chat_try w data now llm = (Inl e, [Get_json], llm)"
  by (simp add: chat_try_def)

lemma chat_try_engine_raises:
  "parse_request w data = Inr (system_prompt, context, max_tokens) \<Longrightarrow>
   create_chat_completion w llm (build_messages w system_prompt context) temperature max_tokens
     = (Inl e, llm') \<Longrightarrow>
   chat_try w data now llm =
     (Inl e, [Get_json, Create_chat_completion (build_messages w system_prompt context) temperature max_tokens], llm')"
  by (simp add: chat_try_def Let_def)

lemma chat_try_engine_returns:
  "parse_request w data = Inr (system_prompt, context, max_tokens) \<Longrightarrow>
   create_chat_completion w llm (build_messages w system_prompt context) temperature max_tokens
     = (Inr response, llm') \<Longrightarrow>
   chat_try w data now llm =
     (case extract_content response of
        Inl e \<Rightarrow> Inl e
      | Inr content \<Rightarrow>
          Inr \<lparr>status = 200, body = JObj [(''content'', content), (''timestamp'', JStr now)]\<rparr>,
      [Get_json, Create_chat_completion (build_messages w system_prompt context) temperature max_tokens],
      llm')"
  by (simp add: chat_try_def Let_def split: sum.split)

lemma parse_request_object:
  "parse_request w (Some (JObj d)) =
     and_then (py_int w (dict_get d ''max_tokens'' (JInt 300))) (\<lambda>max_tokens.
     and_then (py_get (dict_get d ''context'' (JObj [])) ''mensaje'' (JStr [])) (\<lambda>mensaje.
     and_then (slice_50 mensaje) (\<lambda>_.
       Inr (dict_get d ''system'' (JStr default_system), dict_get d ''context'' (JObj []), max_tokens))))"
  by (simp add: parse_request_def get_json_def and_then_def)

lemma py_get_Inr: "py_get x k dflt = Inr v \<Longrightarrow> \<exists>d. x = JObj d"
  by (cases x) simp_all

lemma parse_request_Inr:
  assumes "parse_request w data = Inr (system_prompt, context, max_tokens)"
  shows "\<exists>d c. data = Some (JObj d) \<and> system_prompt = dict_get d ''system'' (JStr default_system)
     \<and> context = dict_get d ''context'' (JObj []) \<and> context = JObj c
     \<and> py_int w (dict_get d ''max_tokens'' (JInt 300)) = Inr max_tokens"
proof -
  obtain payload where data: "data = Some payload"
    using assms by (cases data) (simp_all add: parse_request_def get_json_def and_then_def)
  obtain d where payload: "payload = JObj d"
    using assms data by (cases payload) (simp_all add: parse_request_def get_json_def and_then_def)
  have parsed: "parse_request w (Some (JObj d)) = Inr (system_prompt, context, max_tokens)"
    using assms data payload by simp
  then have sp: "system_prompt = dict_get d ''system'' (JStr default_system)"
    and ctx: "context = dict_get d ''context'' (JObj [])"
    and n: "py_int w (dict_get d ''max_tokens'' (JInt 300)) = Inr max_tokens"
    and m: "\<exists>v. py_get (dict_get d ''context'' (JObj [])) ''mensaje'' (JStr []) = Inr v"
    by (auto simp: parse_request_object and_then_def split: sum.splits)
  from m ctx obtain c where "context = JObj c"
    using py_get_Inr by blast
  with data payload sp ctx n show ?thesis by blast
qed

lemma chat_try_status:
  "chat_try w data now llm = (Inr r, calls, llm') \<Longrightarrow> status r = 200"
  by (auto simp: chat_try_def Let_def split: sum.splits prod.splits)

lemma chat_try_calls:
  "fst (snd (chat_try w data now llm)) = [Get_json] \<or>
   (\<exists>sp ctx n. parse_request w data = Inr (sp, ctx, n) \<and>
      fst (snd (chat_try w data now llm)) = [Get_json, Create_chat_completion (build_messages w sp ctx) temperature n])"
  by (auto simp: chat_try_def Let_def split: sum.splits prod.splits)


section \<open>Properties of the handlers\<close>

lemmas stub_defs = stub_world_def stub_config_def completion_def riega_def boom_def

lemmas run_defs = chat_def chat_try_def parse_request_def get_json_def and_then_def dict_get_def
  build_messages_def extract_content_def first_content_def processing_error_def
  model_error_truthy_def model_error_value_def Let_def

text \<open>
  C1. A \<^verbatim>\<open>POST /chat\<close> that arrives while a load error is recorded (the loader records
  no empty text, see \<open>startup_error_nonempty\<close>) is answered with status 503 and a body
  whose \<^verbatim>\<open>details\<close> is the recorded text; the request body is not parsed and the
  engine is not called (no outside call is made), and the globals are unchanged.
\<close>

theorem chat_model_error_503:
  assumes "MODEL_ERROR s = Some m" and "m \<noteq> []"
  shows "chat w data now s =
           (\<lparr>status = 503,
             body = JObj [(''error'', JStr ''Model not available''), (''details'', JStr m)]\<rparr>,
            [], s)"
  using assms by (simp add: chat_def model_error_truthy_def model_error_value_def)

theorem chat_model_error_503_witness:
  "MODEL_ERROR (startup stub_config (stub_world False [Inr riega]))
     = Some (not_found_msg ''/srv/models/qwen.gguf'')
   \<and> not_found_msg ''/srv/models/qwen.gguf'' \<noteq> []
   \<and> chat (stub_world False [Inr riega]) (Some (JObj [])) ''2026-01-01T00:00:00''
        (startup stub_config (stub_world False [Inr riega])) =
       (\<lparr>status = 503,
         body = JObj [(''error'', JStr ''Model not available''),
                      (''details'', JStr (not_found_msg ''/srv/models/qwen.gguf''))]\<rparr>,
        [], \<lparr>LLM = None, MODEL_ERROR = Some (not_found_msg ''/srv/models/qwen.gguf'')\<rparr>)"
proof -
  have recorded: "MODEL_ERROR (startup stub_config (stub_world False [Inr riega]))
     = Some (not_found_msg ''/srv/models/qwen.gguf'')"
    by (simp add: startup_stub_missing)
  from chat_model_error_503 [OF recorded not_found_msg_nonempty] recorded show ?thesis
    by (simp add: startup_stub_missing not_found_msg_nonempty)
qed

text \<open>
  In the state of the freshly imported module, where neither an error nor a handle is
  set, \<^verbatim>\<open>GET /health\<close> and \<^verbatim>\<open>GET /\<close> answer 200 with \<^verbatim>\<open>model_loaded\<close> false: the
  field is \<^verbatim>\<open>_LLM is not None\<close>.
\<close>

theorem health_neither_state_counterexample:
  "LLM (initial_state :: unit state) = None
   \<and> MODEL_ERROR (initial_state :: unit state) = None
   \<and> status (health stub_config ''2026-01-01T00:00:00'' (initial_state :: unit state)) = 200
   \<and> body_field (health stub_config ''2026-01-01T00:00:00'' (initial_state :: unit state))
        ''model_loaded'' = Some (JBool False)
   \<and> status (root stub_config (initial_state :: unit state)) = 200
   \<and> body_field (root stub_config (initial_state :: unit state)) ''model_loaded''
        = Some (JBool False)"
  by (simp add: initial_state_def health_def root_def body_field_def model_error_truthy_def
      model_error_value_def)

text \<open>
  C2, amended. \<^verbatim>\<open>GET /health\<close> and \<^verbatim>\<open>GET /\<close> answer with status 500 and
  \<^verbatim>\<open>model_loaded\<close> false if and only if a load error is recorded; otherwise they answer
  with status 200, and \<^verbatim>\<open>model_loaded\<close> says whether a model handle is set: true when
  it is, false in the state where neither an error nor a handle is set.
\<close>

theorem health_root_report:
  assumes "MODEL_ERROR s \<noteq> Some []"
  shows "status (health cfg now s) = (if MODEL_ERROR s \<noteq> None then 500 else 200)
         \<and> body_field (health cfg now s) ''model_loaded''
             = Some (JBool (MODEL_ERROR s = None \<and> LLM s \<noteq> None))
         \<and> status (root cfg s) = (if MODEL_ERROR s \<noteq> None then 500 else 200)
         \<and> body_field (root cfg s) ''model_loaded''
             = Some (JBool (MODEL_ERROR s = None \<and> LLM s \<noteq> None))"
  using assms
  by (simp add: health_def root_def body_field_def model_error_truthy_iff)

theorem health_root_report_witness:
  "MODEL_ERROR (startup stub_config (stub_world True [Inr riega])) \<noteq> Some []
   \<and> status (health stub_config ''2026-01-01T00:00:00'' (startup stub_config (stub_world True [Inr riega]))) = 200
   \<and> body_field (health stub_config ''2026-01-01T00:00:00'' (startup stub_config (stub_world True [Inr riega])))
        ''model_loaded'' = Some (JBool True)
   \<and> status (root stub_config (startup stub_config (stub_world False [Inr riega]))) = 500
   \<and> body_field (root stub_config (startup stub_config (stub_world False [Inr riega])))
        ''model_loaded'' = Some (JBool False)"
  using health_root_report [of "startup stub_config (stub_world True [Inr riega])" stub_config
      "''2026-01-01T00:00:00''"]
    health_root_report [of "startup stub_config (stub_world False [Inr riega])" stub_config
      "''2026-01-01T00:00:00''"]
  by (simp add: startup_stub_loaded startup_stub_missing not_found_msg_nonempty)

text \<open>
  C7. A \<^verbatim>\<open>POST /chat\<close> that arrives while no load error is recorded and no model handle
  exists is answered at once with status 503 and the error \<^verbatim>\<open>Model not loaded\<close>, which
  is not the \<^verbatim>\<open>Model not available\<close> of a recorded load error; the request body is not
  parsed and no outside call is made.
\<close>

theorem chat_no_handle_503:
  assumes "MODEL_ERROR s = None" and "LLM s = None"
  shows "chat w data now s =
           (\<lparr>status = 503,
             body = JObj [(''error'', JStr ''Model not loaded''),
                          (''details'', JStr ''LLM instance is None'')]\<rparr>,
            [], s)
         \<and> body_field (fst (chat w data now s)) ''error'' \<noteq> Some (JStr ''Model not available'')"
  using assms
  by (simp add: chat_def model_error_truthy_def model_error_value_def body_field_def)

theorem chat_no_handle_503_witness:
  "MODEL_ERROR (initial_state :: unit state) = None \<and> LLM (initial_state :: unit state) = None
   \<and> chat \<lparr>path_exists = (\<lambda>p. True), Llama = (\<lambda>p c t. Inr ()),
            create_chat_completion = (\<lambda>q m t k. (Inr riega, ())),
            json_dumps = (\<lambda>j. ''{}''), int_of_str = (\<lambda>s. Inr 0)\<rparr>
        (Some (JObj [])) ''2026-01-01T00:00:00'' (initial_state :: unit state) =
       (\<lparr>status = 503,
         body = JObj [(''error'', JStr ''Model not loaded''),
                      (''details'', JStr ''LLM instance is None'')]\<rparr>,
        [], initial_state)"
proof -
  have e: "MODEL_ERROR (initial_state :: unit state) = None"
    and h: "LLM (initial_state :: unit state) = None"
    by (simp_all add: initial_state_def)
  from chat_no_handle_503 [OF e h] e h show ?thesis by simp
qed

text \<open>
  C10. A \<^verbatim>\<open>POST /chat\<close> whose body is not a JSON document (an empty body included),
  made while the model handle is set and no error is recorded: the \<^verbatim>\<open>BadRequest\<close> that
  \<^verbatim>\<open>get_json(force=True)\<close> raises is caught by the handler's \<^verbatim>\<open>except Exception\<close>, and
  the response has status 500 (not 400, not 200) with the fields \<^verbatim>\<open>error\<close> and
  \<^verbatim>\<open>type\<close>; the engine is not called.
\<close>

theorem chat_unparseable_500:
  assumes "MODEL_ERROR s = None" and "LLM s = Some llm"
  shows "chat w None now s =
           (\<lparr>status = 500,
             body = JObj [(''error'', JStr (''Error procesando request: '' @
                              ''400 Bad Request: The browser (or proxy) sent a request that this server could not understand.'')),
                          (''type'', JStr ''BadRequest'')]\<rparr>,
            [Get_json], s)"
proof -
  have "s\<lparr>LLM := Some llm\<rparr> = s" using assms by simp
  with assms show ?thesis
    by (simp add: run_defs)
qed


theorem chat_unparseable_500_witness:
  "chat (stub_world True [Inr riega]) None ''2026-01-01T00:00:00''
     (startup stub_config (stub_world True [Inr riega])) =
     (\<lparr>status = 500,
       body = JObj [(''error'', JStr (''Error procesando request: '' @
                        ''400 Bad Request: The browser (or proxy) sent a request that this server could not understand.'')),
                    (''type'', JStr ''BadRequest'')]\<rparr>,
      [Get_json], \<lparr>LLM = Some [Inr riega], MODEL_ERROR = None\<rparr>)"
  using chat_unparseable_500 [of "startup stub_config (stub_world True [Inr riega])" "[Inr riega]"
      "stub_world True [Inr riega]" "''2026-01-01T00:00:00''"]
  by (simp add: startup_stub_loaded)

lemma chat_after_try:
  "MODEL_ERROR s = None \<Longrightarrow> LLM s = Some llm \<Longrightarrow> chat_try w data now llm = (r, calls, llm') \<Longrightarrow>
   chat w data now s =
     (case r of Inl e \<Rightarrow> processing_error e | Inr x \<Rightarrow> x, calls, s\<lparr>LLM := Some llm'\<rparr>)"
  by (simp add: chat_def model_error_truthy_iff split: sum.split)





lemma chat_status_handle_set:
  assumes "MODEL_ERROR s = None" and "LLM s = Some llm"
  shows "status (fst (chat w data now s)) \<noteq> 503"
proof -
  obtain r calls llm' where run: "chat_try w data now llm = (r, calls, llm')"
    by (cases "chat_try w data now llm") auto
  show ?thesis
  proof (cases r)
    case (Inl e)
    with chat_after_try [OF assms run] show ?thesis by (simp add: processing_error_def)
  next
    case (Inr x)
    with run have "status x = 200" by (simp add: chat_try_status)
    with Inr chat_after_try [OF assms run] show ?thesis by simp
  qed
qed

text \<open>
  C4. Past the availability checks, an exception raised while the request is parsed, by
  the engine call, or while the content is extracted does not leave the handler: the
  response has status 500, its \<^verbatim>\<open>error\<close> holds the exception's message and its
  \<^verbatim>\<open>type\<close> the name of the exception's class. Afterwards the handle is still set and no
  error is recorded, so the next request passes the availability checks again (it is not
  answered 503).
\<close>

theorem chat_exception_500:
  assumes "MODEL_ERROR s = None" and "LLM s = Some llm"
    and "parse_request w data = Inl e
         \<or> (parse_request w data = Inr (system_prompt, context, max_tokens)
             \<and> fst (create_chat_completion w llm (build_messages w system_prompt context)
                      temperature max_tokens) = Inl e)
         \<or> (parse_request w data = Inr (system_prompt, context, max_tokens)
             \<and> fst (create_chat_completion w llm (build_messages w system_prompt context)
                      temperature max_tokens) = Inr response
             \<and> extract_content response = Inl e)"
  shows "fst (chat w data now s) =
           \<lparr>status = 500,
            body = JObj [(''error'', JStr (''Error procesando request: '' @ exn_str e)),
                         (''type'', JStr (exn_name e))]\<rparr>
         \<and> LLM (snd (snd (chat w data now s))) \<noteq> None
         \<and> MODEL_ERROR (snd (snd (chat w data now s))) = None
         \<and> status (fst (chat w data2 now2 (snd (snd (chat w data now s))))) \<noteq> 503"
proof -
  have "\<exists>calls llm'. chat_try w data now llm = (Inl e, calls, llm')"
    using assms(3)
  proof (elim disjE conjE)
    assume "parse_request w data = Inl e"
    then show ?thesis by (simp add: chat_try_parse_raises)
  next
    assume p: "parse_request w data = Inr (system_prompt, context, max_tokens)"
      and c: "fst (create_chat_completion w llm (build_messages w system_prompt context)
                temperature max_tokens) = Inl e"
    obtain llm' where "create_chat_completion w llm (build_messages w system_prompt context)
        temperature max_tokens = (Inl e, llm')"
      using c by (cases "create_chat_completion w llm (build_messages w system_prompt context)
        temperature max_tokens") auto
    from chat_try_engine_raises [OF p this] show ?thesis by blast
  next
    assume p: "parse_request w data = Inr (system_prompt, context, max_tokens)"
      and c: "fst (create_chat_completion w llm (build_messages w system_prompt context)
                temperature max_tokens) = Inr response"
      and x: "extract_content response = Inl e"
    obtain llm' where "create_chat_completion w llm (build_messages w system_prompt context)
        temperature max_tokens = (Inr response, llm')"
      using c by (cases "create_chat_completion w llm (build_messages w system_prompt context)
        temperature max_tokens") auto
    from chat_try_engine_returns [OF p this] x show ?thesis by simp
  qed
  then obtain calls llm' where run: "chat_try w data now llm = (Inl e, calls, llm')"
    by blast
  have after: "chat w data now s = (processing_error e, calls, s\<lparr>LLM := Some llm'\<rparr>)"
    using chat_after_try [OF assms(1,2) run] by simp
  have "status (fst (chat w data2 now2 (s\<lparr>LLM := Some llm'\<rparr>))) \<noteq> 503"
    by (rule chat_status_handle_set [where llm = llm']) (simp_all add: assms(1))
  with after assms(1) show ?thesis
    by (simp add: processing_error_def)
qed

theorem chat_exception_500_witness:
  "fst (chat (stub_world True [Inl boom, Inr riega]) (Some (JObj [])) ''2026-01-01T00:00:00''
         \<lparr>LLM = Some [Inl boom, Inr riega], MODEL_ERROR = None\<rparr>) =
     \<lparr>status = 500,
      body = JObj [(''error'', JStr ''Error procesando request: llama_decode returned -1''),
                   (''type'', JStr ''RuntimeError'')]\<rparr>
   \<and> fst (chat (stub_world True [Inl boom, Inr riega]) (Some (JObj [])) ''2026-01-01T00:00:01''
            (snd (snd (chat (stub_world True [Inl boom, Inr riega]) (Some (JObj []))
               ''2026-01-01T00:00:00'' \<lparr>LLM = Some [Inl boom, Inr riega], MODEL_ERROR = None\<rparr>)))) =
     \<lparr>status = 200,
      body = JObj [(''content'', JStr ''Riega el cultivo cada 3 dias.''),
                   (''timestamp'', JStr ''2026-01-01T00:00:01'')]\<rparr>"
proof -
  let ?w = "stub_world True [Inl boom, Inr riega]"
  let ?s = "\<lparr>LLM = Some [Inl boom, Inr riega], MODEL_ERROR = None\<rparr> :: (py_exn + json) list state"
  have 1: "MODEL_ERROR ?s = None" and 2: "LLM ?s = Some [Inl boom, Inr riega]" by simp_all
  have p: "parse_request ?w (Some (JObj [])) = Inr (JStr default_system, JObj [], 300)"
    by (simp add: parse_request_object and_then_def dict_get_def)
  have c: "fst (create_chat_completion ?w [Inl boom, Inr riega]
      (build_messages ?w (JStr default_system) (JObj [])) temperature 300) = Inl boom"
    by (simp add: stub_world_def)
  have first: "fst (chat ?w (Some (JObj [])) ''2026-01-01T00:00:00'' ?s) =
     \<lparr>status = 500,
      body = JObj [(''error'', JStr ''Error procesando request: llama_decode returned -1''),
                   (''type'', JStr ''RuntimeError'')]\<rparr>"
    using chat_exception_500 [OF 1 2, of ?w "Some (JObj [])" boom "JStr default_system" "JObj []" 300]
      p c
    by (simp add: boom_def)
  have second: "fst (chat ?w (Some (JObj [])) ''2026-01-01T00:00:01''
            (snd (snd (chat ?w (Some (JObj [])) ''2026-01-01T00:00:00'' ?s)))) =
     \<lparr>status = 200,
      body = JObj [(''content'', JStr ''Riega el cultivo cada 3 dias.''),
                   (''timestamp'', JStr ''2026-01-01T00:00:01'')]\<rparr>"
    by (simp add: run_defs stub_defs)
  from first second show ?thesis by blast
qed


text \<open>
  An engine response whose first completion has a message without a \<^verbatim>\<open>content\<close> entry:
  the subscript raises \<^verbatim>\<open>KeyError\<close>, and the request is answered 500 rather than 200
  with an empty content.
\<close>

theorem chat_absent_content_counterexample:
  "first_content (completion [(''role'', JStr ''assistant'')])
     = Inl (Exn ''KeyError'' (squote ''content''))
   \<and> fst (chat (stub_world True [Inr (completion [(''role'', JStr ''assistant'')])])
           (Some (JObj [])) ''2026-01-01T00:00:00''
           \<lparr>LLM = Some [Inr (completion [(''role'', JStr ''assistant'')])], MODEL_ERROR = None\<rparr>) =
       \<lparr>status = 500,
        body = JObj [(''error'', JStr (''Error procesando request: '' @ squote ''content'')),
                     (''type'', JStr ''KeyError'')]\<rparr>"
  by (simp add: run_defs stub_defs)

text \<open>
  C6, amended. When the engine returns a response, the handler reads the content of the
  first completion's message. A string is returned as it is, and \<^verbatim>\<open>None\<close> as the empty
  string, in the \<^verbatim>\<open>content\<close> field of a 200 response together with a \<^verbatim>\<open>timestamp\<close>.
  When the content cannot be read (the entry is absent, for one), the exception of the
  subscript is answered by the processing-error response with status 500.
\<close>

theorem chat_content:
  assumes "MODEL_ERROR s = None" and "LLM s = Some llm"
    and "parse_request w data = Inr (system_prompt, context, max_tokens)"
    and "create_chat_completion w llm (build_messages w system_prompt context)
           temperature max_tokens = (Inr response, llm')"
  shows "(first_content response = Inr (JStr t) \<longrightarrow>
            fst (chat w data now s) =
              \<lparr>status = 200, body = JObj [(''content'', JStr t), (''timestamp'', JStr now)]\<rparr>)
         \<and> (first_content response = Inr JNull \<longrightarrow>
            fst (chat w data now s) =
              \<lparr>status = 200, body = JObj [(''content'', JStr []), (''timestamp'', JStr now)]\<rparr>)
         \<and> (first_content response = Inl e \<longrightarrow>
            fst (chat w data now s) =
              \<lparr>status = 500,
               body = JObj [(''error'', JStr (''Error procesando request: '' @ exn_str e)),
                            (''type'', JStr (exn_name e))]\<rparr>)"
proof -
  have run: "chat w data now s =
      (case extract_content response of
         Inl e \<Rightarrow> processing_error e
       | Inr content \<Rightarrow>
           \<lparr>status = 200, body = JObj [(''content'', content), (''timestamp'', JStr now)]\<rparr>,
       [Get_json, Create_chat_completion (build_messages w system_prompt context) temperature max_tokens],
       s\<lparr>LLM := Some llm'\<rparr>)"
    using chat_after_try [OF assms(1,2) chat_try_engine_returns [OF assms(3,4)], of now]
    by (simp split: sum.split)
  have str: "first_content response = Inr (JStr t) \<Longrightarrow> extract_content response = Inr (JStr t)"
    by (cases t) (simp_all add: extract_content_def and_then_def)
  have null: "first_content response = Inr JNull \<Longrightarrow> extract_content response = Inr (JStr [])"
    by (simp add: extract_content_def and_then_def)
  have exn: "first_content response = Inl e \<Longrightarrow> extract_content response = Inl e"
    by (simp add: extract_content_def and_then_def)
  from run str null exn show ?thesis
    by (auto simp: processing_error_def)
qed

theorem chat_content_witness:
  "first_content (completion [(''role'', JStr ''assistant''), (''content'', JNull)]) = Inr JNull
   \<and> fst (chat (stub_world True [Inr (completion [(''role'', JStr ''assistant''), (''content'', JNull)])])
           (Some (JObj [])) ''2026-01-01T00:00:00''
           \<lparr>LLM = Some [Inr (completion [(''role'', JStr ''assistant''), (''content'', JNull)])],
            MODEL_ERROR = None\<rparr>) =
       \<lparr>status = 200,
        body = JObj [(''content'', JStr []), (''timestamp'', JStr ''2026-01-01T00:00:00'')]\<rparr>"
proof -
  let ?r = "completion [(''role'', JStr ''assistant''), (''content'', JNull)]"
  let ?w = "stub_world True [Inr ?r]"
  let ?s = "\<lparr>LLM = Some [Inr ?r], MODEL_ERROR = None\<rparr> :: (py_exn + json) list state"
  have 1: "MODEL_ERROR ?s = None" and 2: "LLM ?s = Some [Inr ?r]" by simp_all
  have 3: "parse_request ?w (Some (JObj [])) = Inr (JStr default_system, JObj [], 300)"
    by (simp add: parse_request_object and_then_def dict_get_def)
  have 4: "create_chat_completion ?w [Inr ?r] (build_messages ?w (JStr default_system) (JObj []))
      temperature 300 = (Inr ?r, [])"
    by (simp add: stub_world_def)
  have 5: "first_content ?r = Inr JNull"
    by (simp add: first_content_def and_then_def completion_def)
  from chat_content [OF 1 2 3 4, of _ "''2026-01-01T00:00:00''"] 5 show ?thesis
    by simp
qed

text \<open>The literal \<^verbatim>\<open>0.2\<close> is one fifth up to the rounding of binary64.\<close>

lemma temperature_value: "temperature = Finite (1 / 5 + 1 / (5 * 2 ^ 54))"
  by (simp add: temperature_def)

text \<open>Every engine call recorded for a request has the shape the handler builds.\<close>

lemma engine_event_shape:
  assumes "Create_chat_completion messages t n \<in> set (fst (snd (chat w data now s)))"
  shows "\<exists>d context.
           data = Some (JObj d)
           \<and> dict_get d ''context'' (JObj []) = JObj context
           \<and> messages =
               JList [JObj [(''role'', JStr ''system''),
                            (''content'', dict_get d ''system'' (JStr default_system))],
                      JObj [(''role'', JStr ''user''),
                            (''content'', JStr (json_dumps w (JObj context)))]]
           \<and> t = temperature
           \<and> py_int w (dict_get d ''max_tokens'' (JInt 300)) = Inr n
           \<and> filter is_Create_chat_completion (fst (snd (chat w data now s)))
               = [Create_chat_completion messages t n]"
proof -
  from assms obtain llm where handle: "LLM s = Some llm" and ok: "\<not> model_error_truthy s"
    by (cases "LLM s") (auto simp: chat_def split: if_splits)
  have calls: "fst (snd (chat w data now s)) = fst (snd (chat_try w data now llm))"
    using handle ok by (simp add: chat_def split: prod.split sum.split)
  from chat_try_calls [of w data now llm] assms calls
  obtain sp ctx k where parsed: "parse_request w data = Inr (sp, ctx, k)"
    and trace: "fst (snd (chat_try w data now llm))
                  = [Get_json, Create_chat_completion (build_messages w sp ctx) temperature k]"
    by auto
  from assms calls trace have eqs: "messages = build_messages w sp ctx" "t = temperature" "n = k"
    by auto
  from parse_request_Inr [OF parsed] obtain d c where
    d: "data = Some (JObj d)" and sp: "sp = dict_get d ''system'' (JStr default_system)"
    and ctx: "ctx = JObj c" and c: "dict_get d ''context'' (JObj []) = JObj c"
    and k: "py_int w (dict_get d ''max_tokens'' (JInt 300)) = Inr k"
    by auto
  have msgs: "messages =
      JList [JObj [(''role'', JStr ''system''),
                   (''content'', dict_get d ''system'' (JStr default_system))],
             JObj [(''role'', JStr ''user''), (''content'', JStr (json_dumps w (JObj c)))]]"
    using eqs(1) sp ctx by (simp add: build_messages_def)
  have once: "filter is_Create_chat_completion (fst (snd (chat w data now s)))
      = [Create_chat_completion messages t n]"
    using calls trace eqs by simp
  from d c msgs eqs(2) k eqs(3) once show ?thesis by blast
qed

text \<open>
  C8. A \<^verbatim>\<open>POST /chat\<close> that reaches the engine (no error recorded, a handle set, the
  request parsed) applies \<^verbatim>\<open>create_chat_completion\<close> of the handle once, to exactly two
  messages, a system message whose content is \<open>system_prompt\<close> (the request's
  \<^verbatim>\<open>system\<close> or its default) and a user message whose content is \<^verbatim>\<open>json.dumps\<close> of the
  context mapping, with the temperature 0.2 and \<open>max_tokens\<close> the integer of the
  requested value. The response, the engine afterwards and the recorded call are those of
  that application.
\<close>

theorem chat_engine_call:
  assumes "\<not> model_error_truthy s" and "LLM s = Some llm"
    and "parse_request w data = Inr (system_prompt, context, max_tokens)"
  shows "chat w data now s =
           (let messages =
                  JList [JObj [(''role'', JStr ''system''), (''content'', system_prompt)],
                         JObj [(''role'', JStr ''user''),
                               (''content'', JStr (json_dumps w context))]];
                called = create_chat_completion w llm messages
                           (Finite (3602879701896397 / 18014398509481984)) max_tokens
            in (case fst called of
                  Inl e \<Rightarrow> processing_error e
                | Inr response \<Rightarrow>
                    (case extract_content response of
                       Inl e \<Rightarrow> processing_error e
                     | Inr content \<Rightarrow>
                         \<lparr>status = 200,
                          body = JObj [(''content'', content), (''timestamp'', JStr now)]\<rparr>),
                [Get_json,
                 Create_chat_completion messages
                   (Finite (3602879701896397 / 18014398509481984)) max_tokens],
                s\<lparr>LLM := Some (snd called)\<rparr>))
         \<and> (\<exists>d c. data = Some (JObj d)
                \<and> system_prompt = dict_get d ''system'' (JStr default_system)
                \<and> dict_get d ''context'' (JObj []) = JObj c \<and> context = JObj c
                \<and> py_int w (dict_get d ''max_tokens'' (JInt 300)) = Inr max_tokens)"
proof -
  have run: "chat w data now s =
      (case chat_try w data now llm of
         (Inr r, calls, llm') \<Rightarrow> (r, calls, s\<lparr>LLM := Some llm'\<rparr>)
       | (Inl e, calls, llm') \<Rightarrow> (processing_error e, calls, s\<lparr>LLM := Some llm'\<rparr>))"
    using assms(1,2) by (simp add: chat_def)
  have first: "chat w data now s =
           (let messages =
                  JList [JObj [(''role'', JStr ''system''), (''content'', system_prompt)],
                         JObj [(''role'', JStr ''user''),
                               (''content'', JStr (json_dumps w context))]];
                called = create_chat_completion w llm messages
                           (Finite (3602879701896397 / 18014398509481984)) max_tokens
            in (case fst called of
                  Inl e \<Rightarrow> processing_error e
                | Inr response \<Rightarrow>
                    (case extract_content response of
                       Inl e \<Rightarrow> processing_error e
                     | Inr content \<Rightarrow>
                         \<lparr>status = 200,
                          body = JObj [(''content'', content), (''timestamp'', JStr now)]\<rparr>),
                [Get_json,
                 Create_chat_completion messages
                   (Finite (3602879701896397 / 18014398509481984)) max_tokens],
                s\<lparr>LLM := Some (snd called)\<rparr>))"
    unfolding run
    using assms(3)
    by (simp add: chat_try_def build_messages_def temperature_def Let_def split: sum.split)
  from parse_request_Inr [OF assms(3)] have second:
    "\<exists>d c. data = Some (JObj d)
        \<and> system_prompt = dict_get d ''system'' (JStr default_system)
        \<and> dict_get d ''context'' (JObj []) = JObj c \<and> context = JObj c
        \<and> py_int w (dict_get d ''max_tokens'' (JInt 300)) = Inr max_tokens"
    by auto
  from first second show ?thesis by blast
qed

theorem chat_engine_call_witness:
  "chat (stub_world True [Inr riega])
     (Some (JObj [(''system'', JStr ''Eres agronomo.''),
                  (''context'', JObj [(''mensaje'', JStr ''hola'')]),
                  (''max_tokens'', JStr ''50'')]))
     ''2026-01-01T00:00:00'' \<lparr>LLM = Some [Inr riega], MODEL_ERROR = None\<rparr> =
     (\<lparr>status = 200,
       body = JObj [(''content'', JStr ''Riega el cultivo cada 3 dias.''),
                    (''timestamp'', JStr ''2026-01-01T00:00:00'')]\<rparr>,
      [Get_json,
       Create_chat_completion
         (JList [JObj [(''role'', JStr ''system''), (''content'', JStr ''Eres agronomo.'')],
                 JObj [(''role'', JStr ''user''), (''content'', JStr ''{...}'')]])
         (Finite (3602879701896397 / 18014398509481984)) 50],
      \<lparr>LLM = Some [], MODEL_ERROR = None\<rparr>)"
proof -
  let ?w = "stub_world True [Inr riega]"
  let ?s = "\<lparr>LLM = Some [Inr riega], MODEL_ERROR = None\<rparr> :: (py_exn + json) list state"
  let ?ctx = "JObj [(''mensaje'', JStr ''hola'')]"
  have 1: "\<not> model_error_truthy ?s" by (simp add: model_error_truthy_iff)
  have 2: "LLM ?s = Some [Inr riega]" by simp
  have 3: "parse_request ?w
      (Some (JObj [(''system'', JStr ''Eres agronomo.''), (''context'', ?ctx),
                   (''max_tokens'', JStr ''50'')]))
      = Inr (JStr ''Eres agronomo.'', ?ctx, 50)"
    by (simp add: parse_request_object and_then_def dict_get_def stub_world_def)
  from chat_engine_call [OF 1 2 3, of "''2026-01-01T00:00:00''", THEN conjunct1]
  show ?thesis
    by (simp add: stub_defs extract_content_def first_content_def and_then_def processing_error_def)
qed

end
